theory Spec2Isabelle
  imports Complex_Main "HOL-Library.Sublist" "HOL-Library.Multiset"
begin

section \<open>JSON documents\<close>

text \<open>
  The \<open>content\<close> column of \<open>resumes\<close> and the \<open>template_data\<close> column of
  \<open>resume_templates\<close> are JSONB, and the client reads them back as plain JavaScript
  values. An object is a list of properties in insertion order; a property that is not
  in the list reads as \<open>undefined\<close>. A string is the list of the UTF-8 bytes of a
  well-formed Unicode text, that is, of a JavaScript string without unpaired
  surrogates.
\<close>

datatype json =
    JNull
  | JBool bool
  | JNum rat
  | JStr string
  | JArr "json list"
  | JObj "(string \<times> json) list"

text \<open>
  The client reads a stored number as the nearest IEEE double, ties to even. It reads
  as zero exactly when its magnitude is at most half the least positive double.
\<close>

definition parses_to_zero :: "rat \<Rightarrow> bool" where
  "parses_to_zero n = (\<bar>n\<bar> \<le> 1 / 2 ^ 1075)"

text \<open>JavaScript truthiness, which decides the left operand of \<open>||\<close>.\<close>

fun js_truthy :: "json \<Rightarrow> bool" where
  "js_truthy JNull = False"
| "js_truthy (JBool b) = b"
| "js_truthy (JNum n) = (\<not> parses_to_zero n)"
| "js_truthy (JStr s) = (s \<noteq> [])"
| "js_truthy (JArr _) = True"
| "js_truthy (JObj _) = True"

text \<open>Property read \<open>doc.k\<close> on a loaded document; \<open>None\<close> is \<open>undefined\<close>.\<close>

fun js_get :: "json \<Rightarrow> string \<Rightarrow> json option" where
  "js_get (JObj ps) k = map_of ps k"
| "js_get _ k = None"

section \<open>Resume content (Builder.tsx, interface ResumeContent)\<close>

record personal_info =
  fullName :: string
  email :: string
  phone :: string
  location :: string
  summary :: string

text \<open>
  An experience or education entry is written by \<open>{ ...exp, [field]: v }\<close> with a
  computed key, so it is modelled as the JavaScript object it is: its string-valued
  properties in insertion order, no key twice. \<open>exp.id\<close> is the property \<open>''id''\<close>.
\<close>

type_synonym entry = "(string \<times> string) list"

definition entry_id :: "entry \<Rightarrow> string option" where
  "entry_id e = map_of e ''id''"

text \<open>\<open>{ ...e, [field]: v }\<close>: an existing key keeps its place, a new key goes last.\<close>

fun set_prop :: "string \<Rightarrow> string \<Rightarrow> entry \<Rightarrow> entry" where
  "set_prop field v [] = [(field, v)]"
| "set_prop field v ((k, w) # ps) =
     (if k = field then (k, v) # ps else (k, w) # set_prop field v ps)"

text \<open>
  \<open>skills\<close> is a JavaScript array of strings. Writing past its end leaves holes; a
  spread copy \<open>[...xs]\<close> turns each hole into an element that is \<open>undefined\<close>.
\<close>

datatype slot = Elem string | Undefined | Hole

definition spread :: "slot list \<Rightarrow> slot list" where
  "spread xs = map (\<lambda>x. if x = Hole then Undefined else x) xs"

record ResumeContent =
  personalInfo :: personal_info
  experience :: "entry list"
  education :: "entry list"
  skills :: "slot list"

definition empty_content :: ResumeContent where
  "empty_content =
     \<lparr> personalInfo = \<lparr> fullName = '''', email = '''', phone = '''', location = '''',
                          summary = '''' \<rparr>,
       experience = [], education = [], skills = [] \<rparr>"

subsection \<open>Serialisation of the in-memory content\<close>

definition encode_entry :: "entry \<Rightarrow> json" where
  "encode_entry e = JObj (map (\<lambda>(k, v). (k, JStr v)) e)"

definition encode_personal_info :: "personal_info \<Rightarrow> json" where
  "encode_personal_info p =
     JObj [(''fullName'', JStr (fullName p)), (''email'', JStr (email p)),
           (''phone'', JStr (phone p)), (''location'', JStr (location p)),
           (''summary'', JStr (summary p))]"

text \<open>\<open>JSON.stringify\<close> writes \<open>null\<close> for a hole and for \<open>undefined\<close> in an array.\<close>

definition encode_skill :: "slot \<Rightarrow> json" where
  "encode_skill x = (case x of Elem s \<Rightarrow> JStr s | Undefined \<Rightarrow> JNull | Hole \<Rightarrow> JNull)"

definition encode_content :: "ResumeContent \<Rightarrow> json" where
  "encode_content c =
     JObj [(''personalInfo'', encode_personal_info (personalInfo c)),
           (''experience'', JArr (map encode_entry (experience c))),
           (''education'', JArr (map encode_entry (education c))),
           (''skills'', JArr (map encode_skill (skills c)))]"

text \<open>A loaded document has none of its four sub-structures undefined.\<close>

definition content_complete :: "json \<Rightarrow> bool" where
  "content_complete doc =
     list_all (\<lambda>k. js_get doc k \<noteq> None)
       [''personalInfo'', ''experience'', ''education'', ''skills'']"

section \<open>The editing session (Builder.tsx, component state)\<close>

record builder_state =
  isLoading :: bool
  isSaving :: bool
  title :: string
  content :: ResumeContent

definition initial_builder_state :: builder_state where
  "initial_builder_state =
     \<lparr> isLoading = True, isSaving = False, title = ''Untitled Resume'',
       content = empty_content \<rparr>"

datatype phase = Loading | Saving | Ready

definition builder_phase :: "builder_state \<Rightarrow> phase" where
  "builder_phase s = (if isLoading s then Loading else if isSaving s then Saving else Ready)"

definition setContent :: "ResumeContent \<Rightarrow> builder_state \<Rightarrow> builder_state" where
  "setContent c s = s\<lparr>content := c\<rparr>"

subsection \<open>Experience\<close>

text \<open>\<open>nid\<close> is what \<open>crypto.randomUUID()\<close> returned.\<close>

definition newExp :: "string \<Rightarrow> entry" where
  "newExp nid =
     [(''id'', nid), (''company'', ''''), (''position'', ''''), (''startDate'', ''''),
      (''endDate'', ''''), (''description'', '''')]"

definition addExperience :: "string \<Rightarrow> builder_state \<Rightarrow> builder_state" where
  "addExperience nid s =
     setContent ((content s)\<lparr>experience := experience (content s) @ [newExp nid]\<rparr>) s"

definition updateExperience :: "string \<Rightarrow> string \<Rightarrow> string \<Rightarrow> builder_state \<Rightarrow> builder_state" where
  "updateExperience i field v s =
     setContent ((content s)\<lparr>experience :=
        map (\<lambda>exp. if entry_id exp = Some i then set_prop field v exp else exp)
          (experience (content s))\<rparr>) s"

definition removeExperience :: "string \<Rightarrow> builder_state \<Rightarrow> builder_state" where
  "removeExperience i s =
     setContent ((content s)\<lparr>experience :=
        filter (\<lambda>exp. entry_id exp \<noteq> Some i) (experience (content s))\<rparr>) s"

subsection \<open>Education\<close>

definition newEdu :: "string \<Rightarrow> entry" where
  "newEdu nid =
     [(''id'', nid), (''school'', ''''), (''degree'', ''''), (''startDate'', ''''),
      (''endDate'', ''''), (''description'', '''')]"

definition addEducation :: "string \<Rightarrow> builder_state \<Rightarrow> builder_state" where
  "addEducation nid s =
     setContent ((content s)\<lparr>education := education (content s) @ [newEdu nid]\<rparr>) s"

definition updateEducation :: "string \<Rightarrow> string \<Rightarrow> string \<Rightarrow> builder_state \<Rightarrow> builder_state" where
  "updateEducation i field v s =
     setContent ((content s)\<lparr>education :=
        map (\<lambda>edu. if entry_id edu = Some i then set_prop field v edu else edu)
          (education (content s))\<rparr>) s"

definition removeEducation :: "string \<Rightarrow> builder_state \<Rightarrow> builder_state" where
  "removeEducation i s =
     setContent ((content s)\<lparr>education :=
        filter (\<lambda>edu. entry_id edu \<noteq> Some i) (education (content s))\<rparr>) s"

subsection \<open>Skills\<close>

definition addSkill :: "builder_state \<Rightarrow> builder_state" where
  "addSkill s =
     setContent ((content s)\<lparr>skills := spread (skills (content s)) @ [Elem '''']\<rparr>) s"

text \<open>
  \<open>newSkills[index] = v\<close>: inside the array the element is replaced, past its end the
  array grows and the positions in between are holes.
\<close>

definition array_set :: "slot list \<Rightarrow> nat \<Rightarrow> string \<Rightarrow> slot list" where
  "array_set xs index v =
     (if index < length xs then xs[index := Elem v]
      else xs @ replicate (index - length xs) Hole @ [Elem v])"

text \<open>\<open>newSkills\<close> is the spread copy \<open>[...content.skills]\<close>.\<close>

definition updateSkill :: "nat \<Rightarrow> string \<Rightarrow> builder_state \<Rightarrow> builder_state" where
  "updateSkill index v s =
     setContent ((content s)\<lparr>skills := array_set (spread (skills (content s))) index v\<rparr>) s"

text \<open>
  \<open>filter((_, i) => i !== index)\<close>: \<open>Array.prototype.filter\<close> visits the positions
  that hold an element, so holes are dropped whatever the index.
\<close>

definition removeSkill :: "nat \<Rightarrow> builder_state \<Rightarrow> builder_state" where
  "removeSkill index s =
     setContent ((content s)\<lparr>skills :=
        map snd (filter (\<lambda>(i, x). x \<noteq> Hole \<and> i \<noteq> index)
                   (enumerate 0 (skills (content s))))\<rparr>) s"

section \<open>The store (migration SQL)\<close>

type_synonym uuid = string

text \<open>A \<open>TIMESTAMP WITH TIME ZONE\<close>, as a count of clock ticks.\<close>

type_synonym timestamp = int

text \<open>
  \<open>profiles\<close> and \<open>resumes\<close> both carry \<open>created_at\<close> and \<open>updated_at\<close>; the
  trigger function below is one function installed on both tables, so the two columns
  are the common part of both row types.
\<close>

record timestamps =
  created_at :: timestamp
  updated_at :: timestamp

text \<open>\<open>CHECK (subscription_tier IN ('free', 'premium'))\<close> on a nullable column.\<close>

datatype tier = TierFree | TierPremium

record profile_row = timestamps +
  profile_id :: uuid
  profile_user_id :: uuid
  display_name :: "string option"
  avatar_url :: "string option"
  subscription_tier :: "tier option"

record resume_row = timestamps +
  resume_id :: uuid
  resume_user_id :: uuid
  resume_title :: string
  template_id :: string
  resume_content :: json
  is_public :: "bool option"

subsection \<open>Row-level security policies\<close>

text \<open>
  \<open>auth.uid()\<close> is \<open>None\<close> for a request without a session; a comparison with NULL
  is not true, and neither is \<open>is_public = true\<close> on a NULL flag.
\<close>

definition profiles_select_policy :: "uuid option \<Rightarrow> profile_row \<Rightarrow> bool" where
  "profiles_select_policy uid r = (uid = Some (profile_user_id r))"

definition profiles_update_policy :: "uuid option \<Rightarrow> profile_row \<Rightarrow> bool" where
  "profiles_update_policy uid r = (uid = Some (profile_user_id r))"

definition profiles_insert_policy :: "uuid option \<Rightarrow> profile_row \<Rightarrow> bool" where
  "profiles_insert_policy uid r = (uid = Some (profile_user_id r))"

definition resumes_select_policy :: "uuid option \<Rightarrow> resume_row \<Rightarrow> bool" where
  "resumes_select_policy uid r = (uid = Some (resume_user_id r) \<or> is_public r = Some True)"

definition resumes_insert_policy :: "uuid option \<Rightarrow> resume_row \<Rightarrow> bool" where
  "resumes_insert_policy uid r = (uid = Some (resume_user_id r))"

definition resumes_update_policy :: "uuid option \<Rightarrow> resume_row \<Rightarrow> bool" where
  "resumes_update_policy uid r = (uid = Some (resume_user_id r))"

definition resumes_delete_policy :: "uuid option \<Rightarrow> resume_row \<Rightarrow> bool" where
  "resumes_delete_policy uid r = (uid = Some (resume_user_id r))"

subsection \<open>Timestamp trigger\<close>

text \<open>\<open>NEW.updated_at = now(); RETURN NEW;\<close>\<close>

definition update_updated_at_column :: "timestamp \<Rightarrow> 'a timestamps_scheme \<Rightarrow> 'a timestamps_scheme" where
  "update_updated_at_column now NEW = NEW\<lparr>updated_at := now\<rparr>"

subsection \<open>Statements under row-level security\<close>

datatype store_error =
  TransportError | UntranslatableCharacter | PolicyViolation | UniqueViolation | NotSingleRow

text \<open>
  A \<open>TEXT\<close> column and the strings and keys of a \<open>JSONB\<close> document cannot hold the
  character U+0000; a statement that assigns it is refused.
\<close>

definition storable_text :: "string \<Rightarrow> bool" where
  "storable_text s = (CHR 0x00 \<notin> set s)"

fun storable_json :: "json \<Rightarrow> bool" where
  "storable_json (JStr s) = storable_text s"
| "storable_json (JArr xs) = list_all storable_json xs"
| "storable_json (JObj ps) = list_all (\<lambda>(k, v). storable_text k \<and> storable_json v) ps"
| "storable_json _ = True"

definition resume_storable :: "resume_row \<Rightarrow> bool" where
  "resume_storable r =
     (storable_text (resume_title r) \<and> storable_text (template_id r) \<and>
      storable_json (resume_content r))"

definition storable_text_option :: "string option \<Rightarrow> bool" where
  "storable_text_option x = (case x of None \<Rightarrow> True | Some s \<Rightarrow> storable_text s)"

definition profile_storable :: "profile_row \<Rightarrow> bool" where
  "profile_storable r =
     (storable_text_option (display_name r) \<and> storable_text_option (avatar_url r))"

text \<open>
  \<open>SELECT\<close>: the rows that satisfy the request's filter and the table's select policy.
\<close>

definition rls_select :: "('r \<Rightarrow> bool) \<Rightarrow> ('r \<Rightarrow> bool) \<Rightarrow> 'r list \<Rightarrow> 'r list" where
  "rls_select sel wh rows = filter (\<lambda>r. wh r \<and> sel r) rows"

text \<open>
  \<open>UPDATE\<close> of a table with a \<open>BEFORE UPDATE ... FOR EACH ROW\<close> trigger. The rows
  touched are those that satisfy the filter, the select policy (the filter reads the
  row) and the update policy's \<open>USING\<close>; a row that fails them is silently left alone.
  \<open>assign\<close> is the \<open>SET\<close> clause, from the old row to the new one, and \<open>trigger\<close> runs
  on its result. The policies of this schema give no \<open>WITH CHECK\<close> for updates, so
  \<open>USING\<close> is also checked on the new row, after the trigger; a new row that fails
  aborts the whole statement.
\<close>

definition rls_update ::
  "('r \<Rightarrow> bool) \<Rightarrow> ('r \<Rightarrow> bool) \<Rightarrow> ('r \<Rightarrow> 'r) \<Rightarrow> ('r \<Rightarrow> bool) \<Rightarrow> ('r \<Rightarrow> 'r) \<Rightarrow> 'r list
     \<Rightarrow> store_error + 'r list" where
  "rls_update sel upd trigger wh assign rows =
     (let target = (\<lambda>r. wh r \<and> sel r \<and> upd r);
          new = (\<lambda>r. trigger (assign r))
      in if list_ex (\<lambda>r. target r \<and> \<not> (upd (new r) \<and> sel (new r))) rows
         then Inl PolicyViolation
         else Inr (map (\<lambda>r. if target r then new r else r) rows))"

text \<open>The rows an update by \<open>uid\<close> with filter \<open>wh\<close> touches.\<close>

definition resumes_target :: "uuid option \<Rightarrow> (resume_row \<Rightarrow> bool) \<Rightarrow> resume_row \<Rightarrow> bool" where
  "resumes_target uid wh r = (wh r \<and> resumes_select_policy uid r \<and> resumes_update_policy uid r)"

definition profiles_target :: "uuid option \<Rightarrow> (profile_row \<Rightarrow> bool) \<Rightarrow> profile_row \<Rightarrow> bool" where
  "profiles_target uid wh r = (wh r \<and> profiles_select_policy uid r \<and> profiles_update_policy uid r)"

text \<open>
  \<open>resumes.id\<close> is the primary key. The assigned values are converted to the column
  types when the \<open>SET\<close> clause is computed for a row, before the policies are checked
  on the result.
\<close>

definition update_resumes ::
  "uuid option \<Rightarrow> timestamp \<Rightarrow> (resume_row \<Rightarrow> bool) \<Rightarrow> (resume_row \<Rightarrow> resume_row) \<Rightarrow> resume_row list
     \<Rightarrow> store_error + resume_row list" where
  "update_resumes uid now wh assign rows =
     (if list_ex (\<lambda>r. resumes_target uid wh r \<and> \<not> resume_storable (assign r)) rows
      then Inl UntranslatableCharacter
      else case rls_update (resumes_select_policy uid) (resumes_update_policy uid)
                  (update_updated_at_column now) wh assign rows of
             Inl e \<Rightarrow> Inl e
           | Inr rows' \<Rightarrow>
               if distinct (map resume_id rows') then Inr rows' else Inl UniqueViolation)"

text \<open>\<open>profiles.id\<close> is the primary key and \<open>profiles.user_id\<close> is \<open>UNIQUE\<close>.\<close>

definition update_profiles ::
  "uuid option \<Rightarrow> timestamp \<Rightarrow> (profile_row \<Rightarrow> bool) \<Rightarrow> (profile_row \<Rightarrow> profile_row)
     \<Rightarrow> profile_row list \<Rightarrow> store_error + profile_row list" where
  "update_profiles uid now wh assign rows =
     (if list_ex (\<lambda>r. profiles_target uid wh r \<and> \<not> profile_storable (assign r)) rows
      then Inl UntranslatableCharacter
      else case rls_update (profiles_select_policy uid) (profiles_update_policy uid)
                  (update_updated_at_column now) wh assign rows of
             Inl e \<Rightarrow> Inl e
           | Inr rows' \<Rightarrow>
               if distinct (map profile_id rows') \<and> distinct (map profile_user_id rows')
               then Inr rows' else Inl UniqueViolation)"

text \<open>\<open>.single()\<close>: exactly one row, or an error.\<close>

definition pg_single :: "'r list \<Rightarrow> store_error + 'r" where
  "pg_single rs = (case rs of [r] \<Rightarrow> Inr r | _ \<Rightarrow> Inl NotSingleRow)"

text \<open>\<open>.order(column, { ascending: false })\<close> on an integer-valued column.\<close>

definition order_desc :: "('r \<Rightarrow> int) \<Rightarrow> 'r list \<Rightarrow> 'r list" where
  "order_desc col rows = sort_key (\<lambda>r. - col r) rows"

section \<open>Client operations on resumes\<close>

text \<open>
  Every request carries the caller's identity \<open>uid\<close>; \<open>reachable\<close> says whether the
  request gets an answer from the store at all.
\<close>

subsection \<open>Dashboard.tsx: fetchResumes\<close>

definition fetchResumes :: "uuid option \<Rightarrow> bool \<Rightarrow> resume_row list \<Rightarrow> store_error + resume_row list" where
  "fetchResumes uid reachable rows =
     (if \<not> reachable then Inl TransportError
      else Inr (order_desc updated_at (rls_select (resumes_select_policy uid) (\<lambda>_. True) rows)))"

subsection \<open>Builder.tsx: fetchResume\<close>

text \<open>
  The result is the pair handed to \<open>setTitle\<close> and \<open>setContent\<close>. The cast of
  \<open>data.content\<close> to \<open>ResumeContent\<close> checks nothing, so what reaches \<open>setContent\<close> is
  the stored document itself, unless it is falsy.
\<close>

definition fetchResume :: "uuid option \<Rightarrow> bool \<Rightarrow> uuid \<Rightarrow> resume_row list \<Rightarrow> store_error + string \<times> json" where
  "fetchResume uid reachable rid rows =
     (if \<not> reachable then Inl TransportError
      else case pg_single (rls_select (resumes_select_policy uid) (\<lambda>r. resume_id r = rid) rows) of
             Inl e \<Rightarrow> Inl e
           | Inr data \<Rightarrow>
               Inr (resume_title data,
                    if js_truthy (resume_content data) then resume_content data
                    else encode_content empty_content))"

subsection \<open>Builder.tsx: saveResume\<close>

text \<open>
  The object passed to \<open>.update\<close>: title, content and the client's own clock reading
  (\<open>new Date().toISOString()\<close>).
\<close>

definition save_assign :: "string \<Rightarrow> ResumeContent \<Rightarrow> timestamp \<Rightarrow> resume_row \<Rightarrow> resume_row" where
  "save_assign t c client_now r =
     r\<lparr>resume_title := t, resume_content := encode_content c, updated_at := client_now\<rparr>"

definition save_request ::
  "uuid option \<Rightarrow> bool \<Rightarrow> timestamp \<Rightarrow> timestamp \<Rightarrow> uuid \<Rightarrow> string \<Rightarrow> ResumeContent \<Rightarrow> resume_row list
     \<Rightarrow> store_error + resume_row list" where
  "save_request uid reachable now client_now rid t c rows =
     (if \<not> reachable then Inl TransportError
      else update_resumes uid now (\<lambda>r. resume_id r = rid) (save_assign t c client_now) rows)"

datatype toast = ResumeSaved | FailedToSave

text \<open>
  The whole handler: \<open>setIsSaving(true)\<close>, the request with the title and content of
  the session, a toast for either outcome, and \<open>setIsSaving(false)\<close> in \<open>finally\<close>.
  It returns the session, the table and the toast shown.
\<close>

definition saveResume ::
  "uuid option \<Rightarrow> bool \<Rightarrow> timestamp \<Rightarrow> timestamp \<Rightarrow> uuid \<Rightarrow> resume_row list \<Rightarrow> builder_state
     \<Rightarrow> builder_state \<times> resume_row list \<times> toast" where
  "saveResume uid reachable now client_now rid rows s =
     (let s1 = s\<lparr>isSaving := True\<rparr> in
      case save_request uid reachable now client_now rid (title s1) (content s1) rows of
        Inl e \<Rightarrow> (s1\<lparr>isSaving := False\<rparr>, rows, FailedToSave)
      | Inr rows' \<Rightarrow> (s1\<lparr>isSaving := False\<rparr>, rows', ResumeSaved))"

section \<open>Template gallery (TemplateGallery.tsx)\<close>

text \<open>A catalog row as the client types it (interface \<open>Template\<close>).\<close>

record template_row =
  tmpl_id :: string
  name :: string
  category :: string
  preview_url :: "string option"
  is_premium :: bool
  rating :: rat
  downloads :: int
  template_data :: json

definition templates_select_policy :: "uuid option \<Rightarrow> template_row \<Rightarrow> bool" where
  "templates_select_policy uid t = True"

text \<open>
  \<open>String.prototype.toLowerCase\<close> belongs to the platform, and it folds the letters of
  all of Unicode. The filter takes it as the parameter \<open>toLowerCase\<close>. What is used of
  it, and only for the seeded catalog, is its effect on strings of ASCII characters:
  there it maps A to Z to a to z and leaves every other character alone.
\<close>

definition ascii_lower_char :: "char \<Rightarrow> char" where
  "ascii_lower_char c =
     (case map_of (zip ''ABCDEFGHIJKLMNOPQRSTUVWXYZ'' ''abcdefghijklmnopqrstuvwxyz'') c of
        Some l \<Rightarrow> l
      | None \<Rightarrow> c)"

definition ascii_lower :: "string \<Rightarrow> string" where
  "ascii_lower s = map ascii_lower_char s"

definition ascii_only :: "string \<Rightarrow> bool" where
  "ascii_only s = list_all (\<lambda>c. \<not> digit7 c) s"

text \<open>\<open>s.includes(t)\<close>: \<open>t\<close> occurs in \<open>s\<close> as a contiguous run.\<close>

fun js_includes :: "string \<Rightarrow> string \<Rightarrow> bool" where
  "js_includes [] t = (t = [])"
| "js_includes (c # cs) t = (prefix t (c # cs) \<or> js_includes cs t)"

definition fetchTemplates :: "uuid option \<Rightarrow> bool \<Rightarrow> template_row list \<Rightarrow> store_error + template_row list" where
  "fetchTemplates uid reachable table =
     (if \<not> reachable then Inl TransportError
      else Inr (order_desc downloads (rls_select (templates_select_policy uid) (\<lambda>_. True) table)))"

definition filterTemplates ::
  "(string \<Rightarrow> string) \<Rightarrow> template_row list \<Rightarrow> string \<Rightarrow> string \<Rightarrow> template_row list" where
  "filterTemplates toLowerCase templates searchTerm selectedCategory =
     (let filtered = templates;
          filtered =
            (if selectedCategory \<noteq> ''all''
             then filter (\<lambda>template.
                    toLowerCase (category template) = toLowerCase selectedCategory) filtered
             else filtered);
          filtered =
            (if searchTerm \<noteq> []
             then filter (\<lambda>template.
                    js_includes (toLowerCase (name template)) (toLowerCase searchTerm) \<or>
                    js_includes (toLowerCase (category template)) (toLowerCase searchTerm))
                    filtered
             else filtered)
      in filtered)"

subsection \<open>The seeded catalog\<close>

definition template_style :: "string \<Rightarrow> string \<Rightarrow> string \<Rightarrow> json" where
  "template_style layout primary secondary =
     JObj [(''layout'', JStr layout),
           (''colors'', JObj [(''primary'', JStr primary), (''secondary'', JStr secondary)])]"

definition executive_pro :: template_row where
  "executive_pro =
     \<lparr> tmpl_id = ''executive-pro'', name = ''Executive Pro'', category = ''Executive'',
       preview_url = None, is_premium = True, rating = 49 / 10, downloads = 12000,
       template_data = template_style ''executive'' ''#6366f1'' ''#8b5cf6'' \<rparr>"

definition creative_edge :: template_row where
  "creative_edge =
     \<lparr> tmpl_id = ''creative-edge'', name = ''Creative Edge'', category = ''Creative'',
       preview_url = None, is_premium = False, rating = 48 / 10, downloads = 8500,
       template_data = template_style ''creative'' ''#ec4899'' ''#f97316'' \<rparr>"

definition tech_innovator :: template_row where
  "tech_innovator =
     \<lparr> tmpl_id = ''tech-innovator'', name = ''Tech Innovator'', category = ''Technology'',
       preview_url = None, is_premium = True, rating = 49 / 10, downloads = 15000,
       template_data = template_style ''modern'' ''#06b6d4'' ''#3b82f6'' \<rparr>"

definition modern_minimal :: template_row where
  "modern_minimal =
     \<lparr> tmpl_id = ''modern-minimal'', name = ''Modern Minimal'', category = ''Minimalist'',
       preview_url = None, is_premium = False, rating = 47 / 10, downloads = 9200,
       template_data = template_style ''minimal'' ''#10b981'' ''#14b8a6'' \<rparr>"

definition professional_plus :: template_row where
  "professional_plus =
     \<lparr> tmpl_id = ''professional-plus'', name = ''Professional Plus'', category = ''Business'',
       preview_url = None, is_premium = True, rating = 5, downloads = 20000,
       template_data = template_style ''professional'' ''#6366f1'' ''#8b5cf6'' \<rparr>"

definition designers_choice :: template_row where
  "designers_choice =
     \<lparr> tmpl_id = ''designers-choice'', name = ''Designer's Choice'', category = ''Creative'',
       preview_url = None, is_premium = False, rating = 46 / 10, downloads = 6800,
       template_data = template_style ''artistic'' ''#f43f5e'' ''#ec4899'' \<rparr>"

definition seed_templates :: "template_row list" where
  "seed_templates =
     [executive_pro, creative_edge, tech_innovator, modern_minimal, professional_plus,
      designers_choice]"

section \<open>Auxiliary notions for the statements\<close>

text \<open>What a mutation of one section must leave alone.\<close>

definition experience_frame :: "builder_state \<Rightarrow> builder_state \<Rightarrow> bool" where
  "experience_frame s s' =
     (title s' = title s \<and> personalInfo (content s') = personalInfo (content s)
      \<and> education (content s') = education (content s)
      \<and> skills (content s') = skills (content s))"

definition education_frame :: "builder_state \<Rightarrow> builder_state \<Rightarrow> bool" where
  "education_frame s s' =
     (title s' = title s \<and> personalInfo (content s') = personalInfo (content s)
      \<and> experience (content s') = experience (content s)
      \<and> skills (content s') = skills (content s))"

definition skills_frame :: "builder_state \<Rightarrow> builder_state \<Rightarrow> bool" where
  "skills_frame s s' =
     (title s' = title s \<and> personalInfo (content s') = personalInfo (content s)
      \<and> experience (content s') = experience (content s)
      \<and> education (content s') = education (content s))"











text \<open>The row a save leaves behind: the \<open>SET\<close> clause, then the trigger.\<close>

definition saved_row :: "timestamp \<Rightarrow> string \<Rightarrow> ResumeContent \<Rightarrow> timestamp \<Rightarrow> resume_row \<Rightarrow> resume_row" where
  "saved_row now t c client_now r = update_updated_at_column now (save_assign t c client_now r)"

subsection \<open>Sample data\<close>

text \<open>A session with two experience and two education entries.\<close>

definition entry_a :: entry where
  "entry_a = [(''id'', ''a''), (''company'', ''Acme'')]"

definition entry_b :: entry where
  "entry_b = [(''id'', ''b'')]"

definition entry_c :: entry where
  "entry_c = [(''id'', ''c''), (''school'', ''Uni'')]"

definition entry_d :: entry where
  "entry_d = [(''id'', ''d'')]"

definition sample_session :: builder_state where
  "sample_session =
     \<lparr> isLoading = False, isSaving = False, title = ''CV'',
       content = empty_content
         \<lparr> experience := [entry_a, entry_b], education := [entry_c, entry_d],
           skills := [Elem ''sql''] \<rparr> \<rparr>"

text \<open>A resume of user \<open>u\<close> whose title and content are the column defaults.\<close>

definition default_row :: resume_row where
  "default_row =
     \<lparr> created_at = 10, updated_at = 20, resume_id = ''r1'', resume_user_id = ''u'',
       resume_title = ''Untitled Resume'', template_id = ''modern-minimal'',
       resume_content = JObj [], is_public = Some False \<rparr>"

text \<open>A public resume of another user \<open>v\<close>.\<close>

definition shared_row :: resume_row where
  "shared_row =
     \<lparr> created_at = 11, updated_at = 30, resume_id = ''r2'', resume_user_id = ''v'',
       resume_title = ''Theirs'', template_id = ''modern-minimal'',
       resume_content = JObj [(''skills'', JArr [JStr ''sql''])], is_public = Some True \<rparr>"

text \<open>A resume of \<open>u\<close> whose stored document is JSON \<open>null\<close>.\<close>

definition null_row :: resume_row where
  "null_row =
     \<lparr> created_at = 12, updated_at = 40, resume_id = ''r3'', resume_user_id = ''u'',
       resume_title = ''Draft'', template_id = ''modern-minimal'',
       resume_content = JNull, is_public = None \<rparr>"

text \<open>
  A resume of \<open>u\<close> inserted with an \<open>updated_at\<close> of the caller's choosing (the column
  default applies only when the insert leaves the column out).
\<close>

definition postdated_row :: resume_row where
  "postdated_row =
     \<lparr> created_at = 13, updated_at = 500, resume_id = ''r4'', resume_user_id = ''u'',
       resume_title = ''Later'', template_id = ''modern-minimal'',
       resume_content = encode_content empty_content, is_public = Some False \<rparr>"



definition profile_u :: profile_row where
  "profile_u =
     \<lparr> created_at = 5, updated_at = 5, profile_id = ''p1'', profile_user_id = ''u'',
       display_name = Some ''U'', avatar_url = None, subscription_tier = Some TierFree \<rparr>"

text \<open>A \<open>SET\<close> clause on a profile that also names \<open>updated_at\<close>.\<close>

definition rename_profile :: "profile_row \<Rightarrow> profile_row" where
  "rename_profile r = r\<lparr>display_name := Some ''New'', updated_at := 1\<rparr>"

text \<open>The seeded catalog as \<open>fetchTemplates\<close> delivers it.\<close>

definition fetched_seed :: "template_row list" where
  "fetched_seed =
     [professional_plus, tech_innovator, executive_pro, modern_minimal, creative_edge,
      designers_choice]"

section \<open>Lists of entries\<close>

lemma map_if_absent:
  "\<forall>e\<in>set xs. entry_id e \<noteq> Some i \<Longrightarrow>
     map (\<lambda>e. if entry_id e = Some i then g e else e) xs = xs"
  by (induction xs) auto

lemma filter_absent:
  "\<forall>e\<in>set xs. entry_id e \<noteq> Some i \<Longrightarrow> filter (\<lambda>e. entry_id e \<noteq> Some i) xs = xs"
  by (induction xs) auto

lemma entry_id_newExp: "entry_id (newExp nid) = Some nid"
  by (simp add: entry_id_def newExp_def)

lemmas sample_session_defs = sample_session_def empty_content_def entry_id_def
  entry_a_def entry_b_def entry_c_def entry_d_def

text \<open>
  C6, as amended. Appending an experience entry and then removing it by its
  identifier gives back the experience sequence, and indeed the whole session state,
  from before the append, provided no entry of the sequence carries the generated
  identifier already.
\<close>

theorem add_then_remove_experience:
  assumes "\<forall>e\<in>set (experience (content s)). entry_id e \<noteq> Some nid"
  shows "experience (content (removeExperience nid (addExperience nid s)))
           = experience (content s)
         \<and> removeExperience nid (addExperience nid s) = s"
  using assms
  by (simp add: removeExperience_def addExperience_def setContent_def entry_id_newExp
        filter_absent)

theorem add_then_remove_experience_witness:
  "experience (content (removeExperience ''n1'' (addExperience ''n1'' sample_session)))
     = [entry_a, entry_b]
   \<and> removeExperience ''n1'' (addExperience ''n1'' sample_session) = sample_session"
proof -
  have fresh: "\<forall>e\<in>set (experience (content sample_session)). entry_id e \<noteq> Some ''n1''"
    by (simp add: sample_session_defs)
  from add_then_remove_experience [OF fresh] show ?thesis
    by (simp add: sample_session_defs)
qed

text \<open>
  The claim as worded, for every content state, fails. The generated identifier is not
  compared with the identifiers in use, and removal is by identifier, not by position:
  when the identifier handed to the new entry is that of an older entry, the older
  entry goes as well.
\<close>

theorem remove_takes_every_entry_with_the_identifier:
  "experience (content sample_session) = [entry_a, entry_b] \<and>
   experience (content (addExperience ''a'' sample_session))
     = [entry_a, entry_b, newExp ''a''] \<and>
   experience (content (removeExperience ''a'' (addExperience ''a'' sample_session)))
     = [entry_b] \<and>
   [entry_b] \<noteq> [entry_a, entry_b]"
  by (simp add: sample_session_defs removeExperience_def addExperience_def setContent_def
        newExp_def)

text \<open>
  C9. Each mutation of the editing session touches one top-level section only: the
  experience operations leave the personal information, the education and the skills
  as they were, the education operations leave the personal information, the
  experience and the skills, the skills operations leave the personal information,
  the experience and the education; none of them changes the title.
\<close>

theorem mutations_touch_one_section:
  "experience_frame s (addExperience nid s) \<and>
   experience_frame s (updateExperience i field v s) \<and>
   experience_frame s (removeExperience i s) \<and>
   education_frame s (addEducation nid s) \<and>
   education_frame s (updateEducation i field v s) \<and>
   education_frame s (removeEducation i s) \<and>
   skills_frame s (addSkill s) \<and>
   skills_frame s (updateSkill index v s) \<and>
   skills_frame s (removeSkill index s)"
  by (simp add: experience_frame_def education_frame_def skills_frame_def setContent_def
        addExperience_def updateExperience_def removeExperience_def
        addEducation_def updateEducation_def removeEducation_def
        addSkill_def updateSkill_def removeSkill_def)

text \<open>
  C10. With an identifier that no entry of the targeted sequence carries, the keyed
  update and remove of experience and of education leave the whole state unchanged.
  With any identifier, an update keeps the length of the sequence and every entry
  that carries another identifier stays at its position unchanged; a remove keeps
  exactly the entries that carry another identifier, in their order.
\<close>

theorem keyed_update_and_remove:
  "((\<forall>e\<in>set (experience (content s)). entry_id e \<noteq> Some i) \<longrightarrow>
      updateExperience i field v s = s \<and> removeExperience i s = s) \<and>
   ((\<forall>e\<in>set (education (content s)). entry_id e \<noteq> Some i) \<longrightarrow>
      updateEducation i field v s = s \<and> removeEducation i s = s) \<and>
   length (experience (content (updateExperience i field v s)))
     = length (experience (content s)) \<and>
   length (education (content (updateEducation i field v s)))
     = length (education (content s)) \<and>
   (\<forall>k < length (experience (content s)).
      entry_id (experience (content s) ! k) \<noteq> Some i \<longrightarrow>
      experience (content (updateExperience i field v s)) ! k = experience (content s) ! k) \<and>
   (\<forall>k < length (education (content s)).
      entry_id (education (content s) ! k) \<noteq> Some i \<longrightarrow>
      education (content (updateEducation i field v s)) ! k = education (content s) ! k) \<and>
   experience (content (removeExperience i s))
     = filter (\<lambda>e. entry_id e \<noteq> Some i) (experience (content s)) \<and>
   education (content (removeEducation i s))
     = filter (\<lambda>e. entry_id e \<noteq> Some i) (education (content s)) \<and>
   subseq (experience (content (removeExperience i s))) (experience (content s)) \<and>
   subseq (education (content (removeEducation i s))) (education (content s))"
  by (simp add: updateExperience_def removeExperience_def updateEducation_def
        removeEducation_def setContent_def map_if_absent filter_absent)

theorem keyed_update_and_remove_witness:
  "updateExperience ''zz'' ''company'' ''X'' sample_session = sample_session \<and>
   removeExperience ''zz'' sample_session = sample_session \<and>
   updateEducation ''zz'' ''school'' ''X'' sample_session = sample_session \<and>
   removeEducation ''zz'' sample_session = sample_session \<and>
   length (experience (content (updateExperience ''a'' ''company'' ''X'' sample_session))) = 2 \<and>
   experience (content (updateExperience ''a'' ''company'' ''X'' sample_session)) ! 1
     = entry_b \<and>
   education (content (updateEducation ''c'' ''school'' ''X'' sample_session)) ! 1
     = entry_d \<and>
   experience (content (removeExperience ''a'' sample_session)) = [entry_b] \<and>
   education (content (removeEducation ''c'' sample_session)) = [entry_d]"
proof -
  have absent:
    "\<forall>e\<in>set (experience (content sample_session)). entry_id e \<noteq> Some ''zz''"
    "\<forall>e\<in>set (education (content sample_session)). entry_id e \<noteq> Some ''zz''"
    by (simp_all add: sample_session_defs)
  have second:
    "(1::nat) < length (experience (content sample_session))"
    "entry_id (experience (content sample_session) ! 1) \<noteq> Some ''a''"
    "(1::nat) < length (education (content sample_session))"
    "entry_id (education (content sample_session) ! 1) \<noteq> Some ''c''"
    by (simp_all add: sample_session_defs)
  from absent keyed_update_and_remove [of sample_session "''zz''" "''company''" "''X''"]
  have a: "updateExperience ''zz'' ''company'' ''X'' sample_session = sample_session"
    "removeExperience ''zz'' sample_session = sample_session"
    "removeEducation ''zz'' sample_session = sample_session"
    by blast+
  from absent keyed_update_and_remove [of sample_session "''zz''" "''school''" "''X''"]
  have b: "updateEducation ''zz'' ''school'' ''X'' sample_session = sample_session"
    by blast
  from second keyed_update_and_remove [of sample_session "''a''" "''company''" "''X''"]
  have c: "length (experience (content (updateExperience ''a'' ''company'' ''X'' sample_session)))
             = length (experience (content sample_session))"
    "experience (content (updateExperience ''a'' ''company'' ''X'' sample_session)) ! 1
       = experience (content sample_session) ! 1"
    "experience (content (removeExperience ''a'' sample_session))
       = filter (\<lambda>e. entry_id e \<noteq> Some ''a'') (experience (content sample_session))"
    by blast+
  from second keyed_update_and_remove [of sample_session "''c''" "''school''" "''X''"]
  have d: "education (content (updateEducation ''c'' ''school'' ''X'' sample_session)) ! 1
       = education (content sample_session) ! 1"
    "education (content (removeEducation ''c'' sample_session))
       = filter (\<lambda>e. entry_id e \<noteq> Some ''c'') (education (content sample_session))"
    by blast+
  show ?thesis
    unfolding a b c d by (simp add: sample_session_defs)
qed

section \<open>Statements under row-level security\<close>

lemma rls_update_Inr:
  "rls_update sel upd trg wh assign rows = Inr rows' \<Longrightarrow>
     rows' = map (\<lambda>r. if wh r \<and> sel r \<and> upd r then trg (assign r) else r) rows \<and>
     (\<forall>r\<in>set rows. wh r \<and> sel r \<and> upd r \<longrightarrow> upd (trg (assign r)) \<and> sel (trg (assign r)))"
  by (auto simp: rls_update_def Let_def list_ex_iff split: if_splits)

lemma update_resumes_Inr:
  assumes "update_resumes uid now wh assign rows = Inr rows'"
  shows "rows' = map (\<lambda>r. if resumes_target uid wh r
                           then update_updated_at_column now (assign r) else r) rows"
    and "\<forall>r\<in>set rows. resumes_target uid wh r \<longrightarrow>
            resumes_update_policy uid (update_updated_at_column now (assign r))"
    and "distinct (map resume_id rows')"
proof -
  from assms obtain rs where
    rs: "rls_update (resumes_select_policy uid) (resumes_update_policy uid)
           (update_updated_at_column now) wh assign rows = Inr rs"
    and eq: "rows' = rs" and d: "distinct (map resume_id rs)"
    by (auto simp: update_resumes_def split: sum.splits if_splits)
  from rls_update_Inr[OF rs] eq d
  show "rows' = map (\<lambda>r. if resumes_target uid wh r
                           then update_updated_at_column now (assign r) else r) rows"
    and "\<forall>r\<in>set rows. resumes_target uid wh r \<longrightarrow>
            resumes_update_policy uid (update_updated_at_column now (assign r))"
    and "distinct (map resume_id rows')"
    by (auto simp: resumes_target_def)
qed

lemma update_profiles_Inr:
  assumes "update_profiles uid now wh assign rows = Inr rows'"
  shows "rows' = map (\<lambda>r. if profiles_target uid wh r
                           then update_updated_at_column now (assign r) else r) rows"
proof -
  from assms obtain rs where
    rs: "rls_update (profiles_select_policy uid) (profiles_update_policy uid)
           (update_updated_at_column now) wh assign rows = Inr rs"
    and eq: "rows' = rs"
    by (auto simp: update_profiles_def split: sum.splits if_splits)
  from rls_update_Inr[OF rs] eq show ?thesis
    by (auto simp: profiles_target_def)
qed

lemma updated_at_trigger: "updated_at (update_updated_at_column now r) = now"
  by (simp add: update_updated_at_column_def)

lemma save_assign_client_clock:
  "update_updated_at_column now (save_assign t c c1 r) =
   update_updated_at_column now (save_assign t c c2 r)"
  by (simp add: update_updated_at_column_def save_assign_def)

lemma rls_update_trigger_cong:
  "(\<And>r. trg (a1 r) = trg (a2 r)) \<Longrightarrow>
   rls_update sel upd trg wh a1 rows = rls_update sel upd trg wh a2 rows"
  by (simp add: rls_update_def)

lemmas sample_row_defs = default_row_def shared_row_def null_row_def postdated_row_def
  profile_u_def rename_profile_def

lemma sample_contents_storable:
  "storable_json (encode_content empty_content)"
  "storable_json (encode_content (content sample_session))"
  by (simp_all add: encode_content_def encode_personal_info_def encode_entry_def
        encode_skill_def storable_text_def sample_session_defs)

lemmas store_defs = update_resumes_def update_profiles_def rls_update_def rls_select_def
  resume_storable_def profile_storable_def storable_text_def storable_text_option_def
  resumes_select_policy_def resumes_update_policy_def profiles_select_policy_def
  profiles_update_policy_def resumes_target_def profiles_target_def
  update_updated_at_column_def save_assign_def save_request_def pg_single_def

text \<open>
  C2. After any update of a resume row or of a profile row the stored \<open>updated_at\<close> is
  the store's time of the update, whatever the \<open>SET\<close> clause assigned to the column;
  rows the update does not touch keep theirs. In particular the rows a save leaves do
  not depend on the clock reading the client sends along.
\<close>

theorem updated_at_is_store_time:
  "(\<forall>rows'. update_resumes uid now wh assign rows = Inr rows' \<longrightarrow>
      map updated_at rows' =
        map (\<lambda>r. if resumes_target uid wh r then now else updated_at r) rows) \<and>
   (\<forall>prows'. update_profiles uid now pwh passign prows = Inr prows' \<longrightarrow>
      map updated_at prows' =
        map (\<lambda>r. if profiles_target uid pwh r then now else updated_at r) prows) \<and>
   save_request uid reachable now client_now rid t c rows =
     save_request uid reachable now client_now' rid t c rows"
proof (intro conjI allI impI)
  fix rows' assume "update_resumes uid now wh assign rows = Inr rows'"
  from update_resumes_Inr(1)[OF this]
  show "map updated_at rows' =
        map (\<lambda>r. if resumes_target uid wh r then now else updated_at r) rows"
    by (simp add: updated_at_trigger)
next
  fix prows' assume "update_profiles uid now pwh passign prows = Inr prows'"
  from update_profiles_Inr[OF this]
  show "map updated_at prows' =
        map (\<lambda>r. if profiles_target uid pwh r then now else updated_at r) prows"
    by (simp add: updated_at_trigger)
next
  have "rls_update (resumes_select_policy uid) (resumes_update_policy uid)
          (update_updated_at_column now) (\<lambda>r. resume_id r = rid)
          (save_assign t c client_now) rows =
        rls_update (resumes_select_policy uid) (resumes_update_policy uid)
          (update_updated_at_column now) (\<lambda>r. resume_id r = rid)
          (save_assign t c client_now') rows"
    by (rule rls_update_trigger_cong) (rule save_assign_client_clock)
  moreover have "resume_storable (save_assign t c client_now r) =
        resume_storable (save_assign t c client_now' r)" for r
    by (simp add: resume_storable_def save_assign_def)
  ultimately show "save_request uid reachable now client_now rid t c rows =
     save_request uid reachable now client_now' rid t c rows"
    by (simp add: save_request_def update_resumes_def)
qed

theorem updated_at_is_store_time_witness:
  "update_resumes (Some ''u'') 100 (\<lambda>r. resume_id r = ''r1'')
     (save_assign ''X'' empty_content 3) [default_row, shared_row]
     = Inr [default_row\<lparr>resume_title := ''X'',
              resume_content := encode_content empty_content, updated_at := 100\<rparr>,
            shared_row] \<and>
   map updated_at
     [default_row\<lparr>resume_title := ''X'', resume_content := encode_content empty_content,
                  updated_at := 100\<rparr>, shared_row] = [100, 30] \<and>
   update_profiles (Some ''u'') 100 (\<lambda>r. True) rename_profile [profile_u]
     = Inr [profile_u\<lparr>display_name := Some ''New'', updated_at := 100\<rparr>] \<and>
   map updated_at [profile_u\<lparr>display_name := Some ''New'', updated_at := 100\<rparr>] = [100] \<and>
   save_request (Some ''u'') True 100 3 ''r1'' ''X'' empty_content [default_row, shared_row]
     = save_request (Some ''u'') True 100 999 ''r1'' ''X'' empty_content [default_row, shared_row]"
proof -
  have r: "update_resumes (Some ''u'') 100 (\<lambda>r. resume_id r = ''r1'')
             (save_assign ''X'' empty_content 3) [default_row, shared_row]
           = Inr [default_row\<lparr>resume_title := ''X'',
                    resume_content := encode_content empty_content, updated_at := 100\<rparr>,
                  shared_row]"
    by (simp add: store_defs sample_row_defs sample_contents_storable)
  have p: "update_profiles (Some ''u'') 100 (\<lambda>r. True) rename_profile [profile_u]
           = Inr [profile_u\<lparr>display_name := Some ''New'', updated_at := 100\<rparr>]"
    by (simp add: store_defs sample_row_defs)
  note inst = updated_at_is_store_time
    [where uid = "Some ''u''" and now = 100 and wh = "\<lambda>r. resume_id r = ''r1''"
       and assign = "save_assign ''X'' empty_content 3" and rows = "[default_row, shared_row]"
       and pwh = "\<lambda>r. True" and passign = rename_profile and prows = "[profile_u]"
       and reachable = True and client_now = 3 and rid = "''r1''" and t = "''X''"
       and c = empty_content and client_now' = 999]
  show ?thesis using inst r p
    by (simp add: store_defs sample_row_defs sample_contents_storable)
qed

text \<open>
  C3. The owner reference of a resume row cannot be changed by an update that the
  access-control layer lets through: after any update that succeeds, every row has
  the owner it had before.
\<close>

theorem resume_owner_immutable:
  assumes "update_resumes uid now wh assign rows = Inr rows'"
  shows "map resume_user_id rows' = map resume_user_id rows"
proof -
  have "resume_user_id (if resumes_target uid wh r
          then update_updated_at_column now (assign r) else r) = resume_user_id r"
    if "r \<in> set rows" for r
  proof (cases "resumes_target uid wh r")
    case True
    with update_resumes_Inr(2)[OF assms] that
    have "resumes_update_policy uid (update_updated_at_column now (assign r))" by blast
    moreover from True have "resumes_update_policy uid r"
      by (simp add: resumes_target_def)
    ultimately show ?thesis using True
      by (auto simp: resumes_update_policy_def)
  next
    case False
    then show ?thesis by simp
  qed
  then show ?thesis
    unfolding update_resumes_Inr(1)[OF assms] by (simp add: comp_def)
qed

theorem resume_owner_immutable_witness:
  "update_resumes (Some ''u'') 100 (\<lambda>r. resume_id r = ''r1'')
     (save_assign ''X'' empty_content 3) [default_row, shared_row]
     = Inr [default_row\<lparr>resume_title := ''X'',
              resume_content := encode_content empty_content, updated_at := 100\<rparr>,
            shared_row] \<and>
   map resume_user_id
     [default_row\<lparr>resume_title := ''X'', resume_content := encode_content empty_content,
                  updated_at := 100\<rparr>, shared_row] = [''u'', ''v'']"
proof -
  have r: "update_resumes (Some ''u'') 100 (\<lambda>r. resume_id r = ''r1'')
             (save_assign ''X'' empty_content 3) [default_row, shared_row]
           = Inr [default_row\<lparr>resume_title := ''X'',
                    resume_content := encode_content empty_content, updated_at := 100\<rparr>,
                  shared_row]"
    by (simp add: store_defs sample_row_defs sample_contents_storable)
  from resume_owner_immutable [OF r] r show ?thesis
    by (simp add: sample_row_defs)
qed

text \<open>An update that assigns another owner to a row it touches is refused as a whole.\<close>

lemma owner_change_refused:
  assumes "r \<in> set rows" and "resumes_target uid wh r"
    and "resume_user_id (assign r) \<noteq> resume_user_id r"
  shows "\<exists>e. update_resumes uid now wh assign rows = Inl e"
proof -
  from assms(2) have "uid = Some (resume_user_id r)"
    by (simp add: resumes_target_def resumes_update_policy_def)
  with assms(3)
  have "\<not> resumes_update_policy uid (update_updated_at_column now (assign r))"
    by (simp add: resumes_update_policy_def update_updated_at_column_def)
  with assms(1,2)
  have "rls_update (resumes_select_policy uid) (resumes_update_policy uid)
          (update_updated_at_column now) wh assign rows = Inl PolicyViolation"
    by (auto simp: rls_update_def Let_def list_ex_iff resumes_target_def)
  then show ?thesis
    by (simp add: update_resumes_def)
qed

section \<open>Listing, loading and saving resumes\<close>

lemma sorted_order_desc: "sorted_wrt (\<lambda>a b. col b \<le> col a) (order_desc col rows)"
proof -
  have "sorted (map (\<lambda>r. - col r) (sort_key (\<lambda>r. - col r) rows))"
    by (rule sorted_sort_key)
  then show ?thesis
    by (simp add: order_desc_def sorted_wrt_map)
qed

lemma mset_order_desc: "mset (order_desc col rows) = mset rows"
  by (simp add: order_desc_def)

text \<open>
  C4, as amended. For a caller \<open>U\<close>, the list operation returns exactly the resumes
  that \<open>U\<close> owns or that are public, each once, most recently updated first.
\<close>

theorem list_returns_visible_resumes_newest_first:
  "\<exists>rs. fetchResumes (Some U) True rows = Inr rs \<and>
         mset rs = mset (filter (\<lambda>r. resume_user_id r = U \<or> is_public r = Some True) rows) \<and>
         sorted_wrt (\<lambda>a b. updated_at b \<le> updated_at a) rs"
proof -
  have "(\<lambda>r. resumes_select_policy (Some U) r)
          = (\<lambda>r. resume_user_id r = U \<or> is_public r = Some True)"
    by (auto simp: resumes_select_policy_def)
  then show ?thesis
    by (simp add: fetchResumes_def rls_select_def sorted_order_desc mset_order_desc)
qed

theorem list_returns_visible_resumes_newest_first_witness:
  "fetchResumes (Some ''u'') True [default_row, shared_row, null_row]
     = Inr [null_row, shared_row, default_row]"
proof -
  from list_returns_visible_resumes_newest_first [of "''u''" "[default_row, shared_row, null_row]"]
  obtain rs where "fetchResumes (Some ''u'') True [default_row, shared_row, null_row] = Inr rs"
    by blast
  then show ?thesis
    by (simp add: fetchResumes_def order_desc_def store_defs sample_row_defs)
qed

text \<open>
  The claim as worded, that no resume of another owner is listed, fails: the query has
  no owner filter, and the select policy also admits public rows. Listed for \<open>u\<close>, the
  public resume of \<open>v\<close> comes first.
\<close>

theorem list_contains_foreign_public_resume:
  "fetchResumes (Some ''u'') True [default_row, shared_row] = Inr [shared_row, default_row]
   \<and> resume_user_id shared_row = ''v'' \<and> ''v'' \<noteq> ''u''"
  by (simp add: fetchResumes_def order_desc_def store_defs sample_row_defs)





subsection \<open>Reading a document back\<close>









text \<open>
  What a load-for-edit that succeeds returns: the title and the document of the one
  visible row with the identifier, except that a stored document that is falsy as a
  whole (JSON \<open>null\<close>, \<open>false\<close>, a number that reads as zero, the empty string) is
  replaced by the complete default structure. No other stored document is changed.
\<close>

lemma fetchResume_Inr:
  assumes "fetchResume uid reachable rid rows = Inr (t, doc)"
  shows "\<exists>r\<in>set rows. resume_id r = rid \<and> t = resume_title r \<and>
           (if js_truthy (resume_content r) then doc = resume_content r
            else doc = encode_content empty_content \<and> content_complete doc)"
proof -
  from assms obtain data where
    s: "pg_single (rls_select (resumes_select_policy uid) (\<lambda>r. resume_id r = rid) rows) = Inr data"
    and t: "t = resume_title data"
    and doc: "doc = (if js_truthy (resume_content data) then resume_content data
                     else encode_content empty_content)"
    by (auto simp: fetchResume_def split: if_splits sum.splits)
  from s have "rls_select (resumes_select_policy uid) (\<lambda>r. resume_id r = rid) rows = [data]"
    by (auto simp: pg_single_def split: list.splits)
  then have "data \<in> set (filter (\<lambda>r. resume_id r = rid \<and> resumes_select_policy uid r) rows)"
    by (simp add: rls_select_def)
  then have "data \<in> set rows" and "resume_id data = rid" by auto
  moreover have "content_complete (encode_content empty_content)"
    by (simp add: content_complete_def encode_content_def)
  ultimately show ?thesis using t doc by auto
qed

lemma load_of_null_document:
  "fetchResume (Some ''u'') True ''r3'' [null_row] = Inr (''Draft'', encode_content empty_content)
   \<and> content_complete (encode_content empty_content)"
  by (simp add: fetchResume_def store_defs sample_row_defs content_complete_def
        encode_content_def)

text \<open>
  C1. Whatever sub-structure (personalInfo, experience, education, skills) a stored
  content document lacks, the load-for-edit operation is to put its default shape in
  its place, so that no field of the loaded content is undefined. The code does this
  for a document that is absent as a whole, as the lemma above shows, and misses the
  object that lacks its parts: the resume below holds \<open>{}\<close>, the default of the
  column, which is truthy, so it is loaded as it is and all four sub-structures of the
  loaded content are undefined.
\<close>

theorem load_keeps_incomplete_document:
  "fetchResume (Some ''u'') True ''r1'' [default_row] = Inr (''Untitled Resume'', JObj []) \<and>
   js_get (JObj []) ''personalInfo'' = None \<and> js_get (JObj []) ''experience'' = None \<and>
   js_get (JObj []) ''education'' = None \<and> js_get (JObj []) ''skills'' = None \<and>
   \<not> content_complete (JObj [])"
  by (simp add: fetchResume_def store_defs sample_row_defs content_complete_def)

text \<open>
  C7. A save started in the ready state ends in the ready state whether it fails or
  succeeds, with the title and the content of the session as they were; a failed save
  leaves the table as it was as well.
\<close>

theorem save_returns_to_ready:
  assumes "builder_phase s = Ready"
    and "saveResume uid reachable now client_now rid rows s = (s', rows', t)"
  shows "builder_phase s' = Ready \<and> title s' = title s \<and> content s' = content s \<and>
         (t = FailedToSave \<longrightarrow> rows' = rows)"
  using assms
  by (auto simp: saveResume_def builder_phase_def Let_def split: sum.splits if_splits)

theorem save_returns_to_ready_witness:
  "saveResume (Some ''u'') False 100 3 ''r1'' [default_row] sample_session
     = (sample_session, [default_row], FailedToSave) \<and>
   saveResume (Some ''u'') True 100 3 ''r1'' [default_row] sample_session
     = (sample_session, [saved_row 100 ''CV'' (content sample_session) 3 default_row],
        ResumeSaved) \<and>
   builder_phase sample_session = Ready"
proof -
  have ready: "builder_phase sample_session = Ready"
    by (simp add: builder_phase_def sample_session_def)
  have f: "saveResume (Some ''u'') False 100 3 ''r1'' [default_row] sample_session
     = (sample_session, [default_row], FailedToSave)"
    by (simp add: saveResume_def save_request_def sample_session_def)
  have g: "saveResume (Some ''u'') True 100 3 ''r1'' [default_row] sample_session
     = (sample_session, [saved_row 100 ''CV'' (content sample_session) 3 default_row],
        ResumeSaved)"
proof -
    have t: "title sample_session = ''CV''" "isSaving sample_session = False"
      by (simp_all add: sample_session_def)
    have "sample_session\<lparr>isSaving := False\<rparr> = sample_session"
      by (simp add: sample_session_def)
    with sample_contents_storable(2) t show ?thesis
      by (simp add: saveResume_def store_defs saved_row_def default_row_def Let_def)
  qed
  from save_returns_to_ready [OF ready f] save_returns_to_ready [OF ready g] f g
  show ?thesis by simp
qed

section \<open>Template gallery\<close>

lemma js_includes_empty: "js_includes s []"
  by (induction s) auto

text \<open>\<open>js_includes\<close> is the contiguous-sublist relation of the library.\<close>

lemma js_includes_sublist: "js_includes s t = sublist t s"
  by (induction s) (auto simp: sublist_Cons_right)

lemmas seed_defs = seed_templates_def fetched_seed_def executive_pro_def creative_edge_def
  tech_innovator_def modern_minimal_def professional_plus_def designers_choice_def

lemmas ascii_defs = ascii_only_def ascii_lower_def ascii_lower_char_def

lemma fetch_seed: "fetchTemplates uid True seed_templates = Inr fetched_seed"
  by (simp add: fetchTemplates_def order_desc_def rls_select_def templates_select_policy_def
        seed_defs)

text \<open>The categories of the seeded catalog are ASCII strings.\<close>

lemma filter_seed_creative:
  assumes fold: "\<forall>s. ascii_only s \<longrightarrow> toLowerCase s = ascii_lower s"
  shows "filterTemplates toLowerCase fetched_seed [] ''creative''
           = [creative_edge, designers_choice]"
proof -
  have "toLowerCase ''creative'' = ''creative''"
    "toLowerCase ''Business'' = ''business''"
    "toLowerCase ''Technology'' = ''technology''"
    "toLowerCase ''Executive'' = ''executive''"
    "toLowerCase ''Minimalist'' = ''minimalist''"
    "toLowerCase ''Creative'' = ''creative''"
    using fold by (simp_all add: ascii_defs)
  then show ?thesis
    by (simp add: filterTemplates_def seed_defs)
qed

text \<open>
  C8, as amended. Let \<open>toLowerCase\<close> be a function on strings that lower-cases ASCII
  strings letter by letter, as \<open>String.prototype.toLowerCase\<close> does; on other strings
  it may fold as it likes. The catalog is fetched whole, ordered by download count
  descending. The client-side filter keeps, in that order, exactly the templates whose
  name or category contains the search text, both sides lower-cased, and, unless the
  selected category is the entry \<open>all\<close>, whose category equals the selected one, both
  sides lower-cased; with \<open>all\<close> selected the category is not looked at. Over the
  seeded catalog, category \<open>creative\<close> with no search text gives Creative Edge and
  Designer's Choice, in this order, with 8500 and 6800 downloads.
\<close>

theorem gallery_fetch_and_filter:
  assumes fold: "\<forall>s. ascii_only s \<longrightarrow> toLowerCase s = ascii_lower s"
  shows
  "(\<exists>ts. fetchTemplates uid True table = Inr ts \<and> mset ts = mset table \<and>
          sorted_wrt (\<lambda>a b. downloads b \<le> downloads a) ts) \<and>
   filterTemplates toLowerCase templates searchTerm selectedCategory =
     filter (\<lambda>t. (selectedCategory = ''all'' \<or>
                   toLowerCase (category t) = toLowerCase selectedCategory) \<and>
                 (js_includes (toLowerCase (name t)) (toLowerCase searchTerm) \<or>
                  js_includes (toLowerCase (category t)) (toLowerCase searchTerm)))
       templates \<and>
   (\<exists>ts. fetchTemplates uid True seed_templates = Inr ts \<and>
         filterTemplates toLowerCase ts [] ''creative'' = [creative_edge, designers_choice]) \<and>
   map name [creative_edge, designers_choice] = [''Creative Edge'', ''Designer's Choice''] \<and>
   map downloads [creative_edge, designers_choice] = [8500, 6800]"
proof (intro conjI)
  show "\<exists>ts. fetchTemplates uid True table = Inr ts \<and> mset ts = mset table \<and>
          sorted_wrt (\<lambda>a b. downloads b \<le> downloads a) ts"
    by (simp add: fetchTemplates_def rls_select_def templates_select_policy_def
          sorted_order_desc mset_order_desc)
  from fold have empty: "toLowerCase [] = []"
    by (simp add: ascii_defs)
  show "filterTemplates toLowerCase templates searchTerm selectedCategory =
     filter (\<lambda>t. (selectedCategory = ''all'' \<or>
                   toLowerCase (category t) = toLowerCase selectedCategory) \<and>
                 (js_includes (toLowerCase (name t)) (toLowerCase searchTerm) \<or>
                  js_includes (toLowerCase (category t)) (toLowerCase searchTerm)))
       templates"
    by (cases "searchTerm = []")
       (auto simp: filterTemplates_def Let_def js_includes_empty empty intro: filter_cong)
  show "\<exists>ts. fetchTemplates uid True seed_templates = Inr ts \<and>
          filterTemplates toLowerCase ts [] ''creative'' = [creative_edge, designers_choice]"
    by (simp add: fetch_seed filter_seed_creative[OF fold])
  show "map name [creative_edge, designers_choice] = [''Creative Edge'', ''Designer's Choice'']"
    by (simp add: seed_defs)
  show "map downloads [creative_edge, designers_choice] = [8500, 6800]"
    by (simp add: seed_defs)
qed

theorem gallery_fetch_and_filter_witness:
  "filterTemplates ascii_lower fetched_seed ''PRO'' ''all''
     = [professional_plus, executive_pro] \<and>
   filterTemplates ascii_lower fetched_seed ''edge'' ''Creative'' = [creative_edge] \<and>
   filterTemplates ascii_lower fetched_seed [] ''creative''
     = [creative_edge, designers_choice]"
proof -
  have fold: "\<forall>s. ascii_only s \<longrightarrow> ascii_lower s = ascii_lower s"
    by simp
  from gallery_fetch_and_filter [OF fold, of None "[]" fetched_seed "''PRO''" "''all''"]
  have a: "filterTemplates ascii_lower fetched_seed ''PRO'' ''all'' =
     filter (\<lambda>t. (''all'' = ''all'' \<or> ascii_lower (category t) = ascii_lower ''all'') \<and>
                 (js_includes (ascii_lower (name t)) (ascii_lower ''PRO'') \<or>
                  js_includes (ascii_lower (category t)) (ascii_lower ''PRO'')))
       fetched_seed"
    by blast
  from gallery_fetch_and_filter [OF fold, of None "[]" fetched_seed "''edge''" "''Creative''"]
  have b: "filterTemplates ascii_lower fetched_seed ''edge'' ''Creative'' =
     filter (\<lambda>t. (''Creative'' = ''all'' \<or>
                   ascii_lower (category t) = ascii_lower ''Creative'') \<and>
                 (js_includes (ascii_lower (name t)) (ascii_lower ''edge'') \<or>
                  js_includes (ascii_lower (category t)) (ascii_lower ''edge'')))
       fetched_seed"
    by blast
  from gallery_fetch_and_filter [OF fold, of None "[]" "[]" "[]" "[]"]
  have c: "filterTemplates ascii_lower fetched_seed [] ''creative''
             = [creative_edge, designers_choice]"
    by (auto simp: fetch_seed)
  show ?thesis
    unfolding a b c by (simp add: ascii_lower_def ascii_lower_char_def seed_defs)
qed

text \<open>
  The claim as worded, that the filter returns the templates whose category equals the
  selected one, fails for the selection the gallery starts with: with \<open>all\<close> selected
  and no search text the filter returns the whole catalog, and no category in it is
  \<open>all\<close>. Nothing is lower-cased on this path, and the strings below are ASCII.
\<close>

theorem filter_all_keeps_every_category:
  "map category (filterTemplates ascii_lower fetched_seed [] ''all'')
     = [''Business'', ''Technology'', ''Executive'', ''Minimalist'', ''Creative'', ''Creative'']
   \<and> ascii_lower ''all'' = ''all''
   \<and> map ascii_lower
        [''Business'', ''Technology'', ''Executive'', ''Minimalist'', ''Creative'', ''Creative'']
     = [''business'', ''technology'', ''executive'', ''minimalist'', ''creative'', ''creative'']"
  by (simp add: filterTemplates_def ascii_lower_def ascii_lower_char_def seed_defs)

end
